theory Spec2Isabelle
  imports Main "HOL-Library.Char_ord" "HOL-Library.List_Lexorder" "HOL-Library.Multiset"
begin

section \<open>JavaScript values and the pages table\<close>

text \<open>
  Optional request fields arrive as \<^verbatim>\<open>undefined\<close> (field omitted), \<^verbatim>\<open>null\<close> or a
  string. The service tests them for truthiness (\<^verbatim>\<open>if (dto.parentPageId)\<close>) and compares
  them with \<^verbatim>\<open>===\<close>, so the three cases are kept apart.
\<close>

datatype jsval = Undefined | Null | Str string

fun truthy :: "jsval \<Rightarrow> bool" where
  "truthy (Str s) = (s \<noteq> [])"
| "truthy Undefined = False"
| "truthy Null = False"

text \<open>The string carried by a value that passed the truthiness test.\<close>

fun strOf :: "jsval \<Rightarrow> string" where
  "strOf (Str s) = s"
| "strOf Undefined = []"
| "strOf Null = []"

text \<open>A value written into a nullable column by an insert: an omitted field is NULL.\<close>

fun toColumn :: "jsval \<Rightarrow> string option" where
  "toColumn (Str s) = Some s"
| "toColumn Undefined = None"
| "toColumn Null = None"

text \<open>
  A value in the object handed to an update: \<^verbatim>\<open>undefined\<close> leaves the column alone
  (\<open>None\<close>), \<^verbatim>\<open>null\<close> stores NULL, a string stores the string. \<^verbatim>\<open>movePage\<close> relies on
  this when it sets \<^verbatim>\<open>parentPageId = undefined\<close> for a move within the same parent.
\<close>

fun toSet :: "jsval \<Rightarrow> string option option" where
  "toSet Undefined = None"
| "toSet Null = Some None"
| "toSet (Str s) = Some (Some s)"

text \<open>
  \<^verbatim>\<open>movedPage.parentPageId === dto.parentPageId\<close>: the left side is a column read back from
  the table (NULL reads as \<^verbatim>\<open>null\<close>), the right side a request field.
\<close>

fun strictEq :: "string option \<Rightarrow> jsval \<Rightarrow> bool" where
  "strictEq None Null = True"
| "strictEq (Some a) (Str b) = (a = b)"
| "strictEq c v = False"

text \<open>
  A row of the \<^verbatim>\<open>pages\<close> table, with the columns the service reads or writes. The schema
  is not among the sources, so no column the service does not itself fill for every row is
  taken to be non-null: in particular a row may hold NULL as its position (\<open>None\<close>),
  although the service only ever writes strings there.
\<close>

record page =
  id' :: string
  title :: "string option"
  icon :: "string option"
  position :: "string option"
  parentPageId :: "string option"
  spaceId :: string
  creatorId :: string
  workspaceId :: string
  lastUpdatedById :: "string option"
  content :: "string option"
  textContent :: "string option"
  ydoc :: "string option"

type_synonym pages = "page list"

datatype error =
    BadRequestException string
  | NotFoundException string
  | KeyGeneratorError

text \<open>
  \<^verbatim>\<open>generateJitteredKeyBetween(a, b)\<close> comes from the package
  \<^verbatim>\<open>fractional-indexing-jittered\<close>, which the service only imports. It is a parameter of
  the model: a function of the two bounds (\<open>None\<close> for \<^verbatim>\<open>null\<close>) whose result
  \<open>None\<close> stands for a thrown exception. Each operation below calls it at most once,
  so a function of the arguments also covers the jitter of a single call.
\<close>

type_synonym keygen = "string option \<Rightarrow> string option \<Rightarrow> string option"

text \<open>
  \<^verbatim>\<open>ORDER BY position\<close> names no collation, so the order of the rows is the one of the
  store: its collation of strings and its placement of NULL. It is a parameter of the
  model, given as the sort key the store compares rows by: a function from the column
  value into a linear order. \<^verbatim>\<open>ASC\<close> sorts by this key, \<^verbatim>\<open>DESC\<close> is the reverse. Rows
  with equal keys come in an order the store chooses; the model takes one of them, and no
  statement below depends on which.
\<close>

type_synonym 'k collation = "string option \<Rightarrow> 'k"

subsection \<open>The page repository\<close>

text \<open>
  Modelled from the spec: \<^verbatim>\<open>PageRepo\<close> (\<^verbatim>\<open>@docmost/db/repos/page/page.repo\<close>) is not among
  the sources. The spec describes it as a relational store with single-row updates keyed
  by the page id: \<^verbatim>\<open>findById\<close> yields the row with that id or nothing,
  \<^verbatim>\<open>insertPage\<close> adds a row and returns it, \<^verbatim>\<open>updatePage\<close> writes the defined fields of
  its argument into the row with that id.
\<close>

definition findById :: "pages \<Rightarrow> string \<Rightarrow> page option" where
  "findById db pid = find (\<lambda>p. id' p = pid) db"

definition insertPage :: "pages \<Rightarrow> page \<Rightarrow> page \<times> pages" where
  "insertPage db row = (row, db @ [row])"

record UpdatablePage =
  title :: "string option option"
  icon :: "string option option"
  position :: "string option"
  parentPageId :: "string option option"
  lastUpdatedById :: "string option option"
  content :: "string option option"
  textContent :: "string option option"
  ydoc :: "string option option"

definition noChange :: UpdatablePage where
  "noChange = \<lparr>UpdatablePage.title = None, UpdatablePage.icon = None,
     UpdatablePage.position = None, UpdatablePage.parentPageId = None,
     UpdatablePage.lastUpdatedById = None, UpdatablePage.content = None,
     UpdatablePage.textContent = None, UpdatablePage.ydoc = None\<rparr>"

definition setColumns :: "UpdatablePage \<Rightarrow> page \<Rightarrow> page" where
  "setColumns u p =
     p\<lparr>page.title := (case UpdatablePage.title u of None \<Rightarrow> page.title p | Some v \<Rightarrow> v),
       page.icon := (case UpdatablePage.icon u of None \<Rightarrow> page.icon p | Some v \<Rightarrow> v),
       page.position :=
         (case UpdatablePage.position u of None \<Rightarrow> page.position p | Some v \<Rightarrow> Some v),
       page.parentPageId :=
         (case UpdatablePage.parentPageId u of None \<Rightarrow> page.parentPageId p | Some v \<Rightarrow> v),
       page.lastUpdatedById :=
         (case UpdatablePage.lastUpdatedById u of
            None \<Rightarrow> page.lastUpdatedById p | Some v \<Rightarrow> v),
       page.content := (case UpdatablePage.content u of None \<Rightarrow> page.content p | Some v \<Rightarrow> v),
       page.textContent :=
         (case UpdatablePage.textContent u of None \<Rightarrow> page.textContent p | Some v \<Rightarrow> v),
       page.ydoc := (case UpdatablePage.ydoc u of None \<Rightarrow> page.ydoc p | Some v \<Rightarrow> v)\<rparr>"

definition updatePage :: "pages \<Rightarrow> UpdatablePage \<Rightarrow> string \<Rightarrow> pages" where
  "updatePage db u pid = map (\<lambda>p. if id' p = pid then setColumns u p else p) db"

section \<open>The page service\<close>

subsection \<open>movePage\<close>

record MovePageDto =
  pageId :: string
  position :: string
  parentPageId :: jsval

text \<open>
  The result is the outcome (an exception or the normal return) together with the table
  after the call, so that "nothing was written" is a statement about the second component.
\<close>

definition movePage :: "keygen \<Rightarrow> pages \<Rightarrow> MovePageDto \<Rightarrow> (error + unit) \<times> pages" where
  "movePage gen db dto =
     (case gen (Some (MovePageDto.position dto)) None of
        None \<Rightarrow> (Inl (BadRequestException ''Invalid move position''), db)
      | Some _ \<Rightarrow>
         (case findById db (pageId dto) of
            None \<Rightarrow> (Inl (NotFoundException ''Moved page not found''), db)
          | Some movedPage \<Rightarrow>
             if strictEq (page.parentPageId movedPage) (MovePageDto.parentPageId dto)
             then (Inr (),
                   updatePage db
                     (noChange\<lparr>UpdatablePage.position := Some (MovePageDto.position dto),
                               UpdatablePage.parentPageId := None\<rparr>)
                     (pageId dto))
             else if truthy (MovePageDto.parentPageId dto)
                   \<and> findById db (strOf (MovePageDto.parentPageId dto)) = None
             then (Inl (NotFoundException ''Parent page not found''), db)
             else (Inr (),
                   updatePage db
                     (noChange\<lparr>UpdatablePage.position := Some (MovePageDto.position dto),
                               UpdatablePage.parentPageId :=
                                 toSet (MovePageDto.parentPageId dto)\<rparr>)
                     (pageId dto))))"

subsection \<open>create\<close>

record CreatePageDto =
  title :: jsval
  icon :: jsval
  parentPageId :: jsval
  spaceId :: string

text \<open>
  \<^verbatim>\<open>lastPageQuery\<close> with its extra \<^verbatim>\<open>where\<close> clause, executed with
  \<^verbatim>\<open>executeTakeFirst\<close>: the rows of the space that satisfy the extra condition, in the
  store's order of their position descending, limited to one.
\<close>

definition executeTakeFirst :: "'a list \<Rightarrow> 'a option" where
  "executeTakeFirst rows = (case rows of [] \<Rightarrow> None | r # _ \<Rightarrow> Some r)"

definition lastPageQuery ::
  "('k::linorder) collation \<Rightarrow> pages \<Rightarrow> string \<Rightarrow> (page \<Rightarrow> bool) \<Rightarrow> page list" where
  "lastPageQuery collate db space extraWhere =
     take 1 (rev (sort_key (\<lambda>p. collate (page.position p))
       (filter extraWhere (filter (\<lambda>p. page.spaceId p = space) db))))"

text \<open>
  \<open>newId\<close> is the id the store gives the inserted row. An exception of the key generator
  is not caught in \<^verbatim>\<open>create\<close> and leaves it before the insert. The position of the last
  page is handed to the generator as it was read, a NULL as \<^verbatim>\<open>null\<close>.
\<close>

definition create ::
  "keygen \<Rightarrow> ('k::linorder) collation \<Rightarrow> string \<Rightarrow> pages \<Rightarrow> string \<Rightarrow> string \<Rightarrow> CreatePageDto
     \<Rightarrow> (error + page) \<times> pages"
where
  "create gen collate newId db userId wsId dto =
     (if truthy (CreatePageDto.parentPageId dto)
         \<and> findById db (strOf (CreatePageDto.parentPageId dto)) = None
      then (Inl (NotFoundException ''Parent page not found''), db)
      else
        let pagePosition =
          (if truthy (CreatePageDto.parentPageId dto)
           then
             (case executeTakeFirst (lastPageQuery collate db (CreatePageDto.spaceId dto)
                     (\<lambda>p. page.parentPageId p = Some (strOf (CreatePageDto.parentPageId dto)))) of
                None \<Rightarrow> gen None None
              | Some lastPage \<Rightarrow> gen (page.position lastPage) None)
           else
             (case executeTakeFirst (lastPageQuery collate db (CreatePageDto.spaceId dto)
                     (\<lambda>p. page.parentPageId p = None)) of
                None \<Rightarrow> gen None None
              | Some lastPage \<Rightarrow> gen (page.position lastPage) None))
        in
          (case pagePosition of
             None \<Rightarrow> (Inl KeyGeneratorError, db)
           | Some pos \<Rightarrow>
              (case insertPage db
                 \<lparr>page.id' = newId,
                  page.title = toColumn (CreatePageDto.title dto),
                  page.icon = toColumn (CreatePageDto.icon dto),
                  page.position = Some pos,
                  page.parentPageId = toColumn (CreatePageDto.parentPageId dto),
                  page.spaceId = CreatePageDto.spaceId dto,
                  page.creatorId = userId,
                  workspaceId = wsId,
                  page.lastUpdatedById = Some userId,
                  page.content = None, page.textContent = None, page.ydoc = None\<rparr> of
                 (createdPage, db') \<Rightarrow> (Inr createdPage, db'))))"

subsection \<open>update and updateState\<close>

record UpdatePageDto =
  title :: jsval
  icon :: jsval

definition update :: "pages \<Rightarrow> string \<Rightarrow> UpdatePageDto \<Rightarrow> string \<Rightarrow> page option \<times> pages" where
  "update db pid dto userId =
     (let db' = updatePage db
        (noChange\<lparr>UpdatablePage.title := toSet (UpdatePageDto.title dto),
                  UpdatablePage.icon := toSet (UpdatePageDto.icon dto),
                  UpdatablePage.lastUpdatedById := Some (Some userId)\<rparr>)
        pid
      in (findById db' pid, db'))"

text \<open>
  \<^verbatim>\<open>...(userId && { lastUpdatedById: userId })\<close> adds the field only for a truthy
  \<^verbatim>\<open>userId\<close>.
\<close>

definition updateState :: "pages \<Rightarrow> string \<Rightarrow> jsval \<Rightarrow> jsval \<Rightarrow> jsval \<Rightarrow> jsval \<Rightarrow> pages" where
  "updateState db pid contentArg textContentArg ydocArg userId =
     updatePage db
       (noChange\<lparr>UpdatablePage.content := toSet contentArg,
                 UpdatablePage.textContent := toSet textContentArg,
                 UpdatablePage.ydoc := toSet ydocArg,
                 UpdatablePage.lastUpdatedById :=
                   (if truthy userId then toSet userId else None)\<rparr>)
       pid"

subsection \<open>getSidebarPages\<close>

record SidebarPageDto =
  spaceId :: string
  pageId :: jsval

text \<open>The caller's pagination request: a page number and a page size.\<close>

record PaginationOptions =
  page :: nat
  limit :: nat

text \<open>The options object the service hands to \<^verbatim>\<open>executeWithPagination\<close>.\<close>

record PaginationArgs =
  page :: nat
  perPage :: nat

record SidebarRow =
  id' :: string
  title :: "string option"
  icon :: "string option"
  position :: "string option"
  parentPageId :: "string option"
  spaceId :: string
  creatorId :: string
  hasChildren :: bool

text \<open>\<^verbatim>\<open>withHasChildren\<close>: whether any row names this page as its parent.\<close>

definition withHasChildren :: "pages \<Rightarrow> page \<Rightarrow> bool" where
  "withHasChildren db p =
     (0 < length (filter (\<lambda>child. page.parentPageId child = Some (page.id' p)) db))"

definition selectSidebar :: "pages \<Rightarrow> page \<Rightarrow> SidebarRow" where
  "selectSidebar db p =
     \<lparr>SidebarRow.id' = page.id' p, SidebarRow.title = page.title p,
      SidebarRow.icon = page.icon p, SidebarRow.position = page.position p,
      SidebarRow.parentPageId = page.parentPageId p, SidebarRow.spaceId = page.spaceId p,
      SidebarRow.creatorId = page.creatorId p, hasChildren = withHasChildren db p\<rparr>"

text \<open>
  The query built by \<^verbatim>\<open>getSidebarPages\<close>, read as SQL: the two \<^verbatim>\<open>where\<close> clauses, then
  \<^verbatim>\<open>ORDER BY position ASC\<close> in the store's order, then the selected columns.
\<close>

definition sidebarQuery ::
  "('k::linorder) collation \<Rightarrow> pages \<Rightarrow> SidebarPageDto \<Rightarrow> SidebarRow list" where
  "sidebarQuery collate db dto =
     map (selectSidebar db)
       (sort_key (\<lambda>p. collate (page.position p))
         (filter (\<lambda>p. if truthy (SidebarPageDto.pageId dto)
                      then page.parentPageId p = Some (strOf (SidebarPageDto.pageId dto))
                      else page.parentPageId p = None)
           (filter (\<lambda>p. page.spaceId p = SidebarPageDto.spaceId dto) db)))"

text \<open>
  \<^verbatim>\<open>executeWithPagination\<close> (\<^verbatim>\<open>@docmost/db/pagination/pagination\<close>) is not among the
  sources and nothing is assumed about it: it is the parameter \<open>exec\<close>, applied to the
  query and the options object, and its result is the result of \<^verbatim>\<open>getSidebarPages\<close>.
\<close>

definition getSidebarPages ::
  "(SidebarRow list \<Rightarrow> PaginationArgs \<Rightarrow> 'r) \<Rightarrow> ('k::linorder) collation \<Rightarrow> pages
     \<Rightarrow> SidebarPageDto \<Rightarrow> PaginationOptions \<Rightarrow> 'r"
where
  "getSidebarPages exec collate db dto pagination =
     exec (sidebarQuery collate db dto)
       \<lparr>PaginationArgs.page = PaginationOptions.page pagination, perPage = 250\<rparr>"

section \<open>The comment list item\<close>

text \<open>
  The component state that \<^verbatim>\<open>handleUpdateComment\<close> touches, and the console as the list of
  messages written to it.
\<close>

record CommentItemState =
  isEditing :: bool
  isLoading :: bool
  content :: string
  console :: "string list"

text \<open>
  \<^verbatim>\<open>updateCommentMutation.mutateAsync\<close> is a parameter: it resolves (\<open>None\<close>) or rejects
  with an error (\<open>Some err\<close>). \<^verbatim>\<open>JSON.stringify\<close> is the parameter \<open>stringify\<close>.
  The \<^verbatim>\<open>try\<close> block runs \<^verbatim>\<open>setIsLoading(true)\<close>, the mutation and, only after it
  resolved, \<^verbatim>\<open>setIsEditing(false)\<close>; the \<^verbatim>\<open>catch\<close> block logs; the \<^verbatim>\<open>finally\<close> block
  runs \<^verbatim>\<open>setIsLoading(false)\<close> on both paths.
\<close>

definition handleUpdateComment ::
  "(string \<Rightarrow> string) \<Rightarrow> (string \<times> string \<Rightarrow> string option) \<Rightarrow> string \<Rightarrow>
   CommentItemState \<Rightarrow> CommentItemState"
where
  "handleUpdateComment stringify mutateAsync commentId st =
     (let st1 = st\<lparr>isLoading := True\<rparr>;
          commentToUpdate = (commentId, stringify (CommentItemState.content st1));
          st2 = (case mutateAsync commentToUpdate of
                   None \<Rightarrow> st1\<lparr>isEditing := False\<rparr>
                 | Some err \<Rightarrow>
                     st1\<lparr>console := console st1 @ [''Failed to update comment: '' @ err]\<rparr>)
      in st2\<lparr>isLoading := False\<rparr>)"

section \<open>Notions used in the statements\<close>

text \<open>Whether an outcome is a not-found exception, whatever its message.\<close>

fun isNotFound :: "error + 'a \<Rightarrow> bool" where
  "isNotFound (Inl (NotFoundException m)) = True"
| "isNotFound r = False"

text \<open>
  The columns of a row other than title, icon, content, textContent, ydoc and
  lastUpdatedById.
\<close>

definition unwrittenColumns ::
  "page \<Rightarrow> string \<times> string option \<times> string option \<times> string \<times> string \<times> string" where
  "unwrittenColumns p =
     (page.id' p, page.position p, page.parentPageId p, page.spaceId p, page.creatorId p,
      workspaceId p)"

text \<open>A row with its position and parent blanked: all its other columns.\<close>

definition besidesPlacement :: "page \<Rightarrow> page" where
  "besidesPlacement p = p\<lparr>page.position := None, page.parentPageId := None\<rparr>"

text \<open>
  The sibling group of the spec: the rows of a space with a given parent (\<open>None\<close> for the
  root group), in no particular order.
\<close>

definition siblingGroup :: "pages \<Rightarrow> string \<Rightarrow> string option \<Rightarrow> page list" where
  "siblingGroup db space parent =
     filter (\<lambda>p. page.spaceId p = space \<and> page.parentPageId p = parent) db"

text \<open>
  The group a sidebar request asks for: a non-empty pageId names the children of that
  page; an omitted, \<^verbatim>\<open>null\<close> or empty pageId (all falsy) names the root group.
\<close>

definition namedParent :: "jsval \<Rightarrow> string option" where
  "namedParent v = (if truthy v then Some (strOf v) else None)"

section \<open>Sample data\<close>

text \<open>
  A stand-in for the key generator, used only to evaluate the theorems at concrete
  inputs: it rejects the empty string as a left bound and otherwise answers with a longer
  key.
\<close>

definition sampleKeyGen :: keygen where
  "sampleKeyGen a b =
     (case a of None \<Rightarrow> Some ''a0''
      | Some s \<Rightarrow> if s = [] then None else Some (s @ ''V''))"

text \<open>
  Two orders a store may sort positions by, used only at concrete inputs: by character
  codes, and without regard to the case of letters, as a locale-aware collation compares
  them in the first place. Both put NULL first.
\<close>

definition codePoints :: "string collation" where
  "codePoints v = (case v of None \<Rightarrow> [] | Some s \<Rightarrow> s)"

definition lowerChar :: "char \<Rightarrow> char" where
  "lowerChar c =
     (case map_of (zip ''ABCDEFGHIJKLMNOPQRSTUVWXYZ'' ''abcdefghijklmnopqrstuvwxyz'') c of
        None \<Rightarrow> c | Some l \<Rightarrow> l)"

definition ignoreCase :: "string collation" where
  "ignoreCase v = (case v of None \<Rightarrow> [] | Some s \<Rightarrow> map lowerChar s)"

definition mkPage :: "string \<Rightarrow> string \<Rightarrow> string option \<Rightarrow> string \<Rightarrow> page" where
  "mkPage i pos par sp =
     \<lparr>page.id' = i, page.title = None, page.icon = None, page.position = Some pos,
      page.parentPageId = par, page.spaceId = sp, page.creatorId = ''u1'', workspaceId = ''w1'',
      page.lastUpdatedById = Some ''u1'', page.content = None, page.textContent = None,
      page.ydoc = None\<rparr>"

text \<open>Two root pages and two children of the first, all in space \<open>s1\<close>.\<close>

definition sampleDb :: pages where
  "sampleDb =
     [mkPage ''p1'' ''a0'' None ''s1'',
      mkPage ''p2'' ''a1'' None ''s1'',
      mkPage ''c1'' ''a0'' (Some ''p1'') ''s1'',
      mkPage ''c2'' ''a1'' (Some ''p1'') ''s1'']"

text \<open>
  A root page with two children whose positions differ in the case of a letter: by
  character codes \<open>a0V\<close> comes before \<open>a0b\<close>, without regard to case after it.
\<close>

definition mixedCaseDb :: pages where
  "mixedCaseDb =
     [mkPage ''p1'' ''a0'' None ''s1'',
      mkPage ''c1'' ''a0V'' (Some ''p1'') ''s1'',
      mkPage ''c2'' ''a0b'' (Some ''p1'') ''s1'']"

section \<open>Properties\<close>

subsection \<open>Auxiliary facts\<close>

lemma sampleDb_find [simp]:
  "findById sampleDb ''p1'' = Some (mkPage ''p1'' ''a0'' None ''s1'')"
  "findById sampleDb ''p2'' = Some (mkPage ''p2'' ''a1'' None ''s1'')"
  "findById sampleDb ''c1'' = Some (mkPage ''c1'' ''a0'' (Some ''p1'') ''s1'')"
  "findById sampleDb ''c2'' = Some (mkPage ''c2'' ''a1'' (Some ''p1'') ''s1'')"
  "findById sampleDb ''zz'' = None"
  by (simp_all add: findById_def sampleDb_def mkPage_def)

lemma executeTakeFirst_None: "executeTakeFirst rows = None \<longleftrightarrow> rows = []"
  by (simp add: executeTakeFirst_def split: list.splits)

lemma sorted_le_last:
  fixes xs :: "('a::linorder) list"
  shows "sorted xs \<Longrightarrow> x \<in> set xs \<Longrightarrow> x \<le> last xs"
  by (induction xs) auto

lemma sorted_map_embed:
  fixes g :: "'a::linorder \<Rightarrow> 'b::linorder"
  assumes "\<And>a b. (g a \<le> g b) = (a \<le> b)"
  shows "sorted (map g xs) = sorted xs"
  by (induction xs) (auto simp: assms)

lemma sort_key_Nil_iff: "sort_key f xs = [] \<longleftrightarrow> xs = []"
  by (metis length_sort length_0_conv)

lemma last_sort_key_greatest:
  fixes f :: "'a \<Rightarrow> 'k::linorder"
  assumes "xs \<noteq> []"
  shows "last (sort_key f xs) \<in> set xs \<and> (\<forall>q\<in>set xs. f q \<le> f (last (sort_key f xs)))"
proof -
  let ?s = "sort_key f xs"
  from assms have ne: "?s \<noteq> []" by (simp add: sort_key_Nil_iff)
  then have "last ?s \<in> set ?s" by (rule last_in_set)
  then have m: "last ?s \<in> set xs" by simp
  have "f q \<le> f (last ?s)" if "q \<in> set xs" for q
  proof -
    from that have "f q \<in> set (map f ?s)" by simp
    then have "f q \<le> last (map f ?s)"
      by (intro sorted_le_last) simp_all
    with ne show ?thesis by (simp add: last_map)
  qed
  with m show ?thesis by blast
qed

lemma lastPageQuery_empty:
  "lastPageQuery collate db space P = []
     \<longleftrightarrow> filter P (filter (\<lambda>p. page.spaceId p = space) db) = []"
  by (simp add: lastPageQuery_def sort_key_Nil_iff)

lemma lastPageQuery_greatest:
  assumes "executeTakeFirst (lastPageQuery collate db space P) = Some lp"
  shows "lp \<in> set (filter P (filter (\<lambda>p. page.spaceId p = space) db))
       \<and> (\<forall>q\<in>set (filter P (filter (\<lambda>p. page.spaceId p = space) db)).
            collate (page.position q) \<le> collate (page.position lp))"
proof -
  let ?rows = "filter P (filter (\<lambda>p. page.spaceId p = space) db)"
  let ?s = "sort_key (\<lambda>p. collate (page.position p)) ?rows"
  from assms have ne: "?s \<noteq> []"
    by (auto simp: executeTakeFirst_def lastPageQuery_def split: list.splits)
  then have rows: "?rows \<noteq> []" by (simp only: sort_key_Nil_iff not_False_eq_True)
  from assms ne have "lp = last ?s"
    by (cases "rev ?s")
       (auto simp: executeTakeFirst_def lastPageQuery_def take_Suc split: list.splits)
  with last_sort_key_greatest [OF rows, of "\<lambda>p. collate (page.position p)"]
  show ?thesis by simp
qed

lemma setColumns_position_only:
  "setColumns (noChange\<lparr>UpdatablePage.position := Some pos,
                        UpdatablePage.parentPageId := None\<rparr>) p
     = p\<lparr>page.position := Some pos\<rparr>"
  by (simp add: setColumns_def noChange_def)

lemma setColumns_position_parent:
  "setColumns (noChange\<lparr>UpdatablePage.position := Some pos,
                        UpdatablePage.parentPageId := Some par\<rparr>) p
     = p\<lparr>page.position := Some pos, page.parentPageId := par\<rparr>"
  by (simp add: setColumns_def noChange_def)

lemma toSet_defined: "v \<noteq> Undefined \<Longrightarrow> toSet v = Some (toColumn v)"
  by (cases v) simp_all

lemma updatePage_unwritten:
  assumes "UpdatablePage.position u = None" and "UpdatablePage.parentPageId u = None"
  shows "map unwrittenColumns (updatePage db u pid) = map unwrittenColumns db"
  using assms by (simp add: updatePage_def unwrittenColumns_def setColumns_def)

lemma updatePage_other_rows:
  "filter (\<lambda>p. page.id' p \<noteq> pid) (updatePage db u pid) = filter (\<lambda>p. page.id' p \<noteq> pid) db"
  by (induction db) (simp_all add: updatePage_def setColumns_def)

lemma sidebarQuery_keys:
  "map (\<lambda>r. collate (SidebarRow.position r)) (sidebarQuery collate db dto) =
   map (\<lambda>p. collate (page.position p)) (sort_key (\<lambda>p. collate (page.position p))
     (siblingGroup db (SidebarPageDto.spaceId dto) (namedParent (SidebarPageDto.pageId dto))))"
  by (simp add: sidebarQuery_def siblingGroup_def namedParent_def selectSidebar_def
        comp_def conj_commute cong: filter_cong)

lemma sidebarQuery_mset:
  "mset (sidebarQuery collate db dto) =
   image_mset (selectSidebar db)
     (mset (siblingGroup db (SidebarPageDto.spaceId dto) (namedParent (SidebarPageDto.pageId dto))))"
  by (simp add: sidebarQuery_def siblingGroup_def namedParent_def conj_commute cong: filter_cong)

subsection \<open>Errors of movePage and create\<close>

text \<open>
  C1. A move request whose position the key generator rejects fails with the bad-request
  error "Invalid move position", whatever the table holds, and the table is returned
  as it was.
\<close>

theorem movePage_invalid_position:
  "gen (Some (MovePageDto.position dto)) None = None \<Longrightarrow>
   movePage gen db dto = (Inl (BadRequestException ''Invalid move position''), db)"
  by (simp add: movePage_def)

theorem movePage_invalid_position_witness:
  "sampleKeyGen (Some (MovePageDto.position
       \<lparr>MovePageDto.pageId = ''c1'', MovePageDto.position = '''', MovePageDto.parentPageId = Str ''p2''\<rparr>)) None
     = None
   \<and> movePage sampleKeyGen sampleDb
       \<lparr>MovePageDto.pageId = ''c1'', MovePageDto.position = '''', MovePageDto.parentPageId = Str ''p2''\<rparr>
     = (Inl (BadRequestException ''Invalid move position''), sampleDb)"
  using movePage_invalid_position [of sampleKeyGen
      "\<lparr>MovePageDto.pageId = ''c1'', MovePageDto.position = '''', MovePageDto.parentPageId = Str ''p2''\<rparr>"
      sampleDb]
  by (simp add: sampleKeyGen_def)

text \<open>
  C2, as the code has it. A create request whose parentPageId is a non-empty string that
  no row carries as id fails with "Parent page not found" and inserts nothing. A move
  request whose position the generator accepts fails with "Moved page not found" when no
  row carries its pageId, and with "Parent page not found" when the moved page exists,
  its parent is not strictly equal to the requested parentPageId, and the requested
  parentPageId is a non-empty string that no row carries as id. In all three cases the
  table is returned as it was.
\<close>

theorem notFound_no_mutation:
  "(truthy (CreatePageDto.parentPageId cdto)
      \<and> findById db (strOf (CreatePageDto.parentPageId cdto)) = None
     \<longrightarrow> create gen collate newId db userId wsId cdto
           = (Inl (NotFoundException ''Parent page not found''), db))
   \<and> (gen (Some (MovePageDto.position mdto)) None \<noteq> None
      \<and> findById db (MovePageDto.pageId mdto) = None
     \<longrightarrow> movePage gen db mdto = (Inl (NotFoundException ''Moved page not found''), db))
   \<and> (gen (Some (MovePageDto.position mdto)) None \<noteq> None
      \<and> findById db (MovePageDto.pageId mdto) = Some movedPage
      \<and> \<not> strictEq (page.parentPageId movedPage) (MovePageDto.parentPageId mdto)
      \<and> truthy (MovePageDto.parentPageId mdto)
      \<and> findById db (strOf (MovePageDto.parentPageId mdto)) = None
     \<longrightarrow> movePage gen db mdto = (Inl (NotFoundException ''Parent page not found''), db))"
  by (auto simp: create_def movePage_def)

theorem notFound_no_mutation_witness:
  "create sampleKeyGen codePoints ''n1'' sampleDb ''u1'' ''w1''
      \<lparr>CreatePageDto.title = Str ''T'', CreatePageDto.icon = Undefined,
       CreatePageDto.parentPageId = Str ''zz'', CreatePageDto.spaceId = ''s1''\<rparr>
     = (Inl (NotFoundException ''Parent page not found''), sampleDb)
   \<and> movePage sampleKeyGen sampleDb
      \<lparr>MovePageDto.pageId = ''zz'', MovePageDto.position = ''a5'',
       MovePageDto.parentPageId = Null\<rparr>
     = (Inl (NotFoundException ''Moved page not found''), sampleDb)
   \<and> movePage sampleKeyGen sampleDb
      \<lparr>MovePageDto.pageId = ''c1'', MovePageDto.position = ''a5'',
       MovePageDto.parentPageId = Str ''zz''\<rparr>
     = (Inl (NotFoundException ''Parent page not found''), sampleDb)"
  using notFound_no_mutation [of
      "\<lparr>CreatePageDto.title = Str ''T'', CreatePageDto.icon = Undefined,
        CreatePageDto.parentPageId = Str ''zz'', CreatePageDto.spaceId = ''s1''\<rparr>"
      sampleDb sampleKeyGen codePoints "''n1''" "''u1''" "''w1''"
      "\<lparr>MovePageDto.pageId = ''zz'', MovePageDto.position = ''a5'',
        MovePageDto.parentPageId = Null\<rparr>"
      "mkPage ''c1'' ''a0'' (Some ''p1'') ''s1''"]
    notFound_no_mutation [of
      "\<lparr>CreatePageDto.title = Str ''T'', CreatePageDto.icon = Undefined,
        CreatePageDto.parentPageId = Str ''zz'', CreatePageDto.spaceId = ''s1''\<rparr>"
      sampleDb sampleKeyGen codePoints "''n1''" "''u1''" "''w1''"
      "\<lparr>MovePageDto.pageId = ''c1'', MovePageDto.position = ''a5'',
        MovePageDto.parentPageId = Str ''zz''\<rparr>"
      "mkPage ''c1'' ''a0'' (Some ''p1'') ''s1''"]
  by (simp add: sampleKeyGen_def mkPage_def)

text \<open>
  A move request for a page id that no row carries, with a position the generator
  rejects: the outcome is the bad-request error of the position test, not a not-found
  error.
\<close>

theorem notFound_counterexample:
  "findById sampleDb ''zz'' = None
   \<and> movePage sampleKeyGen sampleDb
        \<lparr>MovePageDto.pageId = ''zz'', MovePageDto.position = '''',
         MovePageDto.parentPageId = Null\<rparr>
      = (Inl (BadRequestException ''Invalid move position''), sampleDb)
   \<and> \<not> isNotFound (fst (movePage sampleKeyGen sampleDb
        \<lparr>MovePageDto.pageId = ''zz'', MovePageDto.position = '''',
         MovePageDto.parentPageId = Null\<rparr>))"
  by (simp add: movePage_def sampleKeyGen_def)

subsection \<open>Position of a created page\<close>

text \<open>
  C3, as the code has it. Take a create request whose parentPageId is absent or a
  non-empty string, and whose parent, if named, exists; its sibling group is the rows of
  the requested space with that parent. The left bound handed to the key generator
  (with right bound null) is null when the group is empty, and otherwise the position of
  a member that is last in the store's order of positions. If the generator answers with
  a key, create succeeds and appends one row with that key as position, in that space and
  under that parent; if the generator throws, nothing is inserted. When the store
  compares positions by character codes and no member has a NULL position, the left
  bound is the lexicographically last position of the group.
\<close>

theorem create_position:
  assumes "\<not> truthy (CreatePageDto.parentPageId dto)
           \<or> findById db (strOf (CreatePageDto.parentPageId dto)) \<noteq> None"
    and "CreatePageDto.parentPageId dto \<noteq> Str []"
  shows "\<exists>bound.
      (if siblingGroup db (CreatePageDto.spaceId dto)
            (toColumn (CreatePageDto.parentPageId dto)) = []
       then bound = None
       else \<exists>lp \<in> set (siblingGroup db (CreatePageDto.spaceId dto)
                          (toColumn (CreatePageDto.parentPageId dto))).
              (\<forall>q \<in> set (siblingGroup db (CreatePageDto.spaceId dto)
                            (toColumn (CreatePageDto.parentPageId dto))).
                 collate (page.position q) \<le> collate (page.position lp))
              \<and> bound = page.position lp)
    \<and> (case gen bound None of
          None \<Rightarrow> create gen collate newId db userId wsId dto = (Inl KeyGeneratorError, db)
        | Some pos \<Rightarrow>
            \<exists>created. create gen collate newId db userId wsId dto = (Inr created, db @ [created])
              \<and> page.position created = Some pos
              \<and> page.id' created = newId
              \<and> page.spaceId created = CreatePageDto.spaceId dto
              \<and> page.parentPageId created = toColumn (CreatePageDto.parentPageId dto))
    \<and> ((\<forall>a b. (collate (Some a) \<le> collate (Some b)) = (a \<le> b))
        \<and> siblingGroup db (CreatePageDto.spaceId dto)
            (toColumn (CreatePageDto.parentPageId dto)) \<noteq> []
        \<and> (\<forall>q \<in> set (siblingGroup db (CreatePageDto.spaceId dto)
                        (toColumn (CreatePageDto.parentPageId dto))). page.position q \<noteq> None)
       \<longrightarrow> bound = Some (Max ((\<lambda>q. the (page.position q)) `
              set (siblingGroup db (CreatePageDto.spaceId dto)
                    (toColumn (CreatePageDto.parentPageId dto))))))"
proof -
  let ?P = "CreatePageDto.parentPageId dto"
  let ?par = "toColumn ?P"
  let ?grp = "siblingGroup db (CreatePageDto.spaceId dto) ?par"
  let ?q = "lastPageQuery collate db (CreatePageDto.spaceId dto)
              (\<lambda>p. page.parentPageId p = ?par)"
  define bound where
    "bound = (case executeTakeFirst ?q of None \<Rightarrow> None | Some lp \<Rightarrow> page.position lp)"
  have grp: "filter (\<lambda>p. page.parentPageId p = ?par)
               (filter (\<lambda>p. page.spaceId p = CreatePageDto.spaceId dto) db) = ?grp"
    by (simp add: siblingGroup_def)
  have named: "truthy ?P \<Longrightarrow> Some (strOf ?P) = ?par" and root: "\<not> truthy ?P \<Longrightarrow> ?par = None"
    using assms(2) by (cases ?P; simp)+
  have outcome: "create gen collate newId db userId wsId dto =
      (case gen bound None of
         None \<Rightarrow> (Inl KeyGeneratorError, db)
       | Some pos \<Rightarrow>
           (Inr \<lparr>page.id' = newId, page.title = toColumn (CreatePageDto.title dto),
                 page.icon = toColumn (CreatePageDto.icon dto), page.position = Some pos,
                 page.parentPageId = ?par, page.spaceId = CreatePageDto.spaceId dto,
                 page.creatorId = userId, workspaceId = wsId,
                 page.lastUpdatedById = Some userId, page.content = None,
                 page.textContent = None, page.ydoc = None\<rparr>,
            db @ [\<lparr>page.id' = newId, page.title = toColumn (CreatePageDto.title dto),
                 page.icon = toColumn (CreatePageDto.icon dto), page.position = Some pos,
                 page.parentPageId = ?par, page.spaceId = CreatePageDto.spaceId dto,
                 page.creatorId = userId, workspaceId = wsId,
                 page.lastUpdatedById = Some userId, page.content = None,
                 page.textContent = None, page.ydoc = None\<rparr>]))"
  proof (cases "truthy ?P")
    case True
    with assms(1) named show ?thesis
      by (simp add: create_def bound_def insertPage_def Let_def split: option.splits)
  next
    case False
    with root show ?thesis
      by (simp add: create_def bound_def insertPage_def Let_def split: option.splits)
  qed
  have empty: "bound = None" if "?grp = []"
  proof -
    from that have "executeTakeFirst ?q = None"
      by (simp only: executeTakeFirst_None lastPageQuery_empty grp)
    then show ?thesis by (simp add: bound_def)
  qed
  have last: "\<exists>lp \<in> set ?grp.
      (\<forall>q \<in> set ?grp. collate (page.position q) \<le> collate (page.position lp))
      \<and> bound = page.position lp" if "?grp \<noteq> []"
  proof -
    from that have "executeTakeFirst ?q \<noteq> None"
      by (simp only: executeTakeFirst_None lastPageQuery_empty grp not_False_eq_True)
    then obtain lp where lp: "executeTakeFirst ?q = Some lp" by blast
    have "lp \<in> set ?grp \<and> (\<forall>q \<in> set ?grp. collate (page.position q) \<le> collate (page.position lp))"
      by (rule lastPageQuery_greatest [OF lp, unfolded grp])
    moreover from lp have "bound = page.position lp" by (simp add: bound_def)
    ultimately show ?thesis by blast
  qed
  have lexico: "bound = Some (Max ((\<lambda>q. the (page.position q)) ` set ?grp))"
    if embed: "\<forall>a b. (collate (Some a) \<le> collate (Some b)) = (a \<le> b)"
      and ne: "?grp \<noteq> []" and nn: "\<forall>q \<in> set ?grp. page.position q \<noteq> None"
  proof -
    from last [OF ne] obtain lp where lp: "lp \<in> set ?grp"
      and ge: "\<forall>q \<in> set ?grp. collate (page.position q) \<le> collate (page.position lp)"
      and b: "bound = page.position lp" by blast
    from nn lp obtain s where s: "page.position lp = Some s" by auto
    have "Max ((\<lambda>q. the (page.position q)) ` set ?grp) = s"
    proof (rule Max_eqI)
      show "finite ((\<lambda>q. the (page.position q)) ` set ?grp)" by simp
      show "s \<in> (\<lambda>q. the (page.position q)) ` set ?grp"
        using lp s by force
      fix y assume "y \<in> (\<lambda>q. the (page.position q)) ` set ?grp"
      then obtain q where q: "q \<in> set ?grp" and y: "y = the (page.position q)" by blast
      from nn q y have "page.position q = Some y" by auto
      with ge q s have "collate (Some y) \<le> collate (Some s)" by force
      with embed show "y \<le> s" by simp
    qed
    with b s show ?thesis by simp
  qed
  have "(if ?grp = [] then bound = None
         else \<exists>lp \<in> set ?grp.
                (\<forall>q \<in> set ?grp. collate (page.position q) \<le> collate (page.position lp))
                \<and> bound = page.position lp)"
    using empty last by simp
  moreover have "(case gen bound None of
          None \<Rightarrow> create gen collate newId db userId wsId dto = (Inl KeyGeneratorError, db)
        | Some pos \<Rightarrow>
            \<exists>created. create gen collate newId db userId wsId dto = (Inr created, db @ [created])
              \<and> page.position created = Some pos
              \<and> page.id' created = newId
              \<and> page.spaceId created = CreatePageDto.spaceId dto
              \<and> page.parentPageId created = ?par)"
    by (simp add: outcome split: option.splits)
  ultimately show ?thesis using lexico by blast
qed

text \<open>
  Three runs on the sample table with positions compared by character codes: a root page
  added after the root pages \<open>a0\<close> and \<open>a1\<close>, a first child added under \<open>p2\<close>, and a
  third child added under \<open>p1\<close>.
\<close>

theorem create_position_witness:
  "CreatePageDto.parentPageId
      \<lparr>CreatePageDto.title = Str ''T'', CreatePageDto.icon = Undefined,
       CreatePageDto.parentPageId = Undefined, CreatePageDto.spaceId = ''s1''\<rparr> = Undefined
   \<and> map (\<lambda>p. (page.id' p, page.position p, page.parentPageId p))
       (snd (create sampleKeyGen codePoints ''n1'' sampleDb ''u1'' ''w1''
          \<lparr>CreatePageDto.title = Str ''T'', CreatePageDto.icon = Undefined,
           CreatePageDto.parentPageId = Undefined, CreatePageDto.spaceId = ''s1''\<rparr>))
     = [(''p1'', Some ''a0'', None), (''p2'', Some ''a1'', None),
        (''c1'', Some ''a0'', Some ''p1''), (''c2'', Some ''a1'', Some ''p1''),
        (''n1'', Some ''a1V'', None)]
   \<and> findById sampleDb ''p2'' = Some (mkPage ''p2'' ''a1'' None ''s1'')
   \<and> map (\<lambda>p. (page.id' p, page.position p, page.parentPageId p))
       (snd (create sampleKeyGen codePoints ''n2'' sampleDb ''u1'' ''w1''
          \<lparr>CreatePageDto.title = Str ''T'', CreatePageDto.icon = Undefined,
           CreatePageDto.parentPageId = Str ''p2'', CreatePageDto.spaceId = ''s1''\<rparr>))
     = [(''p1'', Some ''a0'', None), (''p2'', Some ''a1'', None),
        (''c1'', Some ''a0'', Some ''p1''), (''c2'', Some ''a1'', Some ''p1''),
        (''n2'', Some ''a0'', Some ''p2'')]
   \<and> findById sampleDb ''p1'' = Some (mkPage ''p1'' ''a0'' None ''s1'')
   \<and> map (\<lambda>p. (page.id' p, page.position p, page.parentPageId p))
       (snd (create sampleKeyGen codePoints ''n3'' sampleDb ''u1'' ''w1''
          \<lparr>CreatePageDto.title = Str ''T'', CreatePageDto.icon = Undefined,
           CreatePageDto.parentPageId = Str ''p1'', CreatePageDto.spaceId = ''s1''\<rparr>))
     = [(''p1'', Some ''a0'', None), (''p2'', Some ''a1'', None),
        (''c1'', Some ''a0'', Some ''p1''), (''c2'', Some ''a1'', Some ''p1''),
        (''n3'', Some ''a1V'', Some ''p1'')]"
proof -
  let ?root = "\<lparr>CreatePageDto.title = Str ''T'', CreatePageDto.icon = Undefined,
       CreatePageDto.parentPageId = Undefined, CreatePageDto.spaceId = ''s1''\<rparr>"
  let ?child = "\<lparr>CreatePageDto.title = Str ''T'', CreatePageDto.icon = Undefined,
       CreatePageDto.parentPageId = Str ''p2'', CreatePageDto.spaceId = ''s1''\<rparr>"
  let ?sib = "\<lparr>CreatePageDto.title = Str ''T'', CreatePageDto.icon = Undefined,
       CreatePageDto.parentPageId = Str ''p1'', CreatePageDto.spaceId = ''s1''\<rparr>"
  have rows: "map (\<lambda>p. (page.id' p, page.position p, page.parentPageId p)) sampleDb
     = [(''p1'', Some ''a0'', None), (''p2'', Some ''a1'', None),
        (''c1'', Some ''a0'', Some ''p1''), (''c2'', Some ''a1'', Some ''p1'')]"
    by (simp add: sampleDb_def mkPage_def)
  have g1: "siblingGroup sampleDb (CreatePageDto.spaceId ?root)
              (toColumn (CreatePageDto.parentPageId ?root))
            = [mkPage ''p1'' ''a0'' None ''s1'', mkPage ''p2'' ''a1'' None ''s1'']"
    and g2: "siblingGroup sampleDb (CreatePageDto.spaceId ?child)
              (toColumn (CreatePageDto.parentPageId ?child)) = []"
    by (simp_all add: siblingGroup_def sampleDb_def mkPage_def)
  have h1: "\<not> truthy (CreatePageDto.parentPageId ?root)
           \<or> findById sampleDb (strOf (CreatePageDto.parentPageId ?root)) \<noteq> None"
    and h1': "CreatePageDto.parentPageId ?root \<noteq> Str []"
    and h2: "\<not> truthy (CreatePageDto.parentPageId ?child)
           \<or> findById sampleDb (strOf (CreatePageDto.parentPageId ?child)) \<noteq> None"
    and h2': "CreatePageDto.parentPageId ?child \<noteq> Str []"
    by simp_all
  from create_position [OF h1 h1', of codePoints sampleKeyGen "''n1''" "''u1''" "''w1''"]
  obtain b1 where
    l1: "\<exists>lp \<in> set [mkPage ''p1'' ''a0'' None ''s1'', mkPage ''p2'' ''a1'' None ''s1''].
           (\<forall>q \<in> set [mkPage ''p1'' ''a0'' None ''s1'', mkPage ''p2'' ''a1'' None ''s1''].
              codePoints (page.position q) \<le> codePoints (page.position lp))
           \<and> b1 = page.position lp"
    and o1: "case sampleKeyGen b1 None of
          None \<Rightarrow> create sampleKeyGen codePoints ''n1'' sampleDb ''u1'' ''w1'' ?root
                    = (Inl KeyGeneratorError, sampleDb)
        | Some pos \<Rightarrow>
            \<exists>created. create sampleKeyGen codePoints ''n1'' sampleDb ''u1'' ''w1'' ?root
                = (Inr created, sampleDb @ [created])
              \<and> page.position created = Some pos
              \<and> page.id' created = ''n1''
              \<and> page.spaceId created = CreatePageDto.spaceId ?root
              \<and> page.parentPageId created = toColumn (CreatePageDto.parentPageId ?root)"
    unfolding g1 by auto
  from l1 have "b1 = Some ''a1''"
    by (auto simp: mkPage_def codePoints_def)
  with o1 have r1: "map (\<lambda>p. (page.id' p, page.position p, page.parentPageId p))
       (snd (create sampleKeyGen codePoints ''n1'' sampleDb ''u1'' ''w1'' ?root))
     = map (\<lambda>p. (page.id' p, page.position p, page.parentPageId p)) sampleDb
       @ [(''n1'', Some ''a1V'', None)]"
    by (auto simp: sampleKeyGen_def)
  from create_position [OF h2 h2', of codePoints sampleKeyGen "''n2''" "''u1''" "''w1''"]
  obtain b2 where
    l2: "b2 = None"
    and o2: "case sampleKeyGen b2 None of
          None \<Rightarrow> create sampleKeyGen codePoints ''n2'' sampleDb ''u1'' ''w1'' ?child
                    = (Inl KeyGeneratorError, sampleDb)
        | Some pos \<Rightarrow>
            \<exists>created. create sampleKeyGen codePoints ''n2'' sampleDb ''u1'' ''w1'' ?child
                = (Inr created, sampleDb @ [created])
              \<and> page.position created = Some pos
              \<and> page.id' created = ''n2''
              \<and> page.spaceId created = CreatePageDto.spaceId ?child
              \<and> page.parentPageId created = toColumn (CreatePageDto.parentPageId ?child)"
    unfolding g2 by auto
  from l2 o2 have r2: "map (\<lambda>p. (page.id' p, page.position p, page.parentPageId p))
       (snd (create sampleKeyGen codePoints ''n2'' sampleDb ''u1'' ''w1'' ?child))
     = map (\<lambda>p. (page.id' p, page.position p, page.parentPageId p)) sampleDb
       @ [(''n2'', Some ''a0'', Some ''p2'')]"
    by (auto simp: sampleKeyGen_def)
  have g3: "siblingGroup sampleDb (CreatePageDto.spaceId ?sib)
              (toColumn (CreatePageDto.parentPageId ?sib))
            = [mkPage ''c1'' ''a0'' (Some ''p1'') ''s1'', mkPage ''c2'' ''a1'' (Some ''p1'') ''s1'']"
    by (simp add: siblingGroup_def sampleDb_def mkPage_def)
  have h3: "\<not> truthy (CreatePageDto.parentPageId ?sib)
           \<or> findById sampleDb (strOf (CreatePageDto.parentPageId ?sib)) \<noteq> None"
    and h3': "CreatePageDto.parentPageId ?sib \<noteq> Str []"
    by simp_all
  from create_position [OF h3 h3', of codePoints sampleKeyGen "''n3''" "''u1''" "''w1''"]
  obtain b3 where
    l3: "\<exists>lp \<in> set [mkPage ''c1'' ''a0'' (Some ''p1'') ''s1'',
                        mkPage ''c2'' ''a1'' (Some ''p1'') ''s1''].
           (\<forall>q \<in> set [mkPage ''c1'' ''a0'' (Some ''p1'') ''s1'',
                         mkPage ''c2'' ''a1'' (Some ''p1'') ''s1''].
              codePoints (page.position q) \<le> codePoints (page.position lp))
           \<and> b3 = page.position lp"
    and o3: "case sampleKeyGen b3 None of
          None \<Rightarrow> create sampleKeyGen codePoints ''n3'' sampleDb ''u1'' ''w1'' ?sib
                    = (Inl KeyGeneratorError, sampleDb)
        | Some pos \<Rightarrow>
            \<exists>created. create sampleKeyGen codePoints ''n3'' sampleDb ''u1'' ''w1'' ?sib
                = (Inr created, sampleDb @ [created])
              \<and> page.position created = Some pos
              \<and> page.id' created = ''n3''
              \<and> page.spaceId created = CreatePageDto.spaceId ?sib
              \<and> page.parentPageId created = toColumn (CreatePageDto.parentPageId ?sib)"
    unfolding g3 by auto
  from l3 have "b3 = Some ''a1''"
    by (auto simp: mkPage_def codePoints_def)
  with o3 have r3: "map (\<lambda>p. (page.id' p, page.position p, page.parentPageId p))
       (snd (create sampleKeyGen codePoints ''n3'' sampleDb ''u1'' ''w1'' ?sib))
     = map (\<lambda>p. (page.id' p, page.position p, page.parentPageId p)) sampleDb
       @ [(''n3'', Some ''a1V'', Some ''p1'')]"
    by (auto simp: sampleKeyGen_def)
  from r1 r2 r3 rows show ?thesis by simp
qed

text \<open>
  The children of \<open>p1\<close> have the positions \<open>a0V\<close> and \<open>a0b\<close>, of which \<open>a0b\<close> is the
  lexicographically last. In a store that compares positions without regard to case the
  last row is the one with \<open>a0V\<close>, and the new child gets the generator's answer to that
  bound, not its answer to \<open>a0b\<close>.
\<close>

theorem create_position_counterexample:
  "map page.position (siblingGroup mixedCaseDb ''s1'' (Some ''p1'')) = [Some ''a0V'', Some ''a0b'']
   \<and> Max {''a0V'', ''a0b''} = ''a0b''
   \<and> create sampleKeyGen ignoreCase ''n1'' mixedCaseDb ''u1'' ''w1''
        \<lparr>CreatePageDto.title = Undefined, CreatePageDto.icon = Undefined,
         CreatePageDto.parentPageId = Str ''p1'', CreatePageDto.spaceId = ''s1''\<rparr>
      = (Inr (mkPage ''n1'' ''a0VV'' (Some ''p1'') ''s1''),
         mixedCaseDb @ [mkPage ''n1'' ''a0VV'' (Some ''p1'') ''s1''])
   \<and> sampleKeyGen (Some ''a0V'') None = Some ''a0VV''
   \<and> sampleKeyGen (Some ''a0b'') None = Some ''a0bV''"
  by (simp add: create_def lastPageQuery_def executeTakeFirst_def insertPage_def
        siblingGroup_def sampleKeyGen_def mixedCaseDb_def mkPage_def findById_def
        ignoreCase_def lowerChar_def)

subsection \<open>What movePage, update and updateState write\<close>

text \<open>
  C4, as the code has it. When movePage succeeds, the row of the moved page gets the
  position string of the request, as supplied; every column other than position and
  parentPageId, and every other row, stays as it was. If the page's parent is strictly
  equal to the requested parentPageId, the parentPageId stays as well, so that only the
  position is written. If it is not, and the request carries a parentPageId (a string, or
  null for the root), the row's parentPageId is set to it.
\<close>

theorem movePage_written_columns:
  assumes "movePage gen db dto = (Inr (), db')"
    and "findById db (MovePageDto.pageId dto) = Some movedPage"
  shows "map page.position db'
           = map (\<lambda>p. if page.id' p = MovePageDto.pageId dto
                        then Some (MovePageDto.position dto) else page.position p) db
       \<and> map besidesPlacement db' = map besidesPlacement db
       \<and> filter (\<lambda>p. page.id' p \<noteq> MovePageDto.pageId dto) db'
           = filter (\<lambda>p. page.id' p \<noteq> MovePageDto.pageId dto) db
       \<and> (strictEq (page.parentPageId movedPage) (MovePageDto.parentPageId dto) \<longrightarrow>
            db' = map (\<lambda>p. if page.id' p = MovePageDto.pageId dto
                             then p\<lparr>page.position := Some (MovePageDto.position dto)\<rparr>
                             else p) db)
       \<and> (\<not> strictEq (page.parentPageId movedPage) (MovePageDto.parentPageId dto)
            \<and> MovePageDto.parentPageId dto \<noteq> Undefined \<longrightarrow>
            db' = map (\<lambda>p. if page.id' p = MovePageDto.pageId dto
                             then p\<lparr>page.position := Some (MovePageDto.position dto),
                                    page.parentPageId := toColumn (MovePageDto.parentPageId dto)\<rparr>
                             else p) db)"
proof -
  obtain u where db': "db' = updatePage db u (MovePageDto.pageId dto)"
    and pos: "UpdatablePage.position u = Some (MovePageDto.position dto)"
    and rest: "UpdatablePage.title u = None" "UpdatablePage.icon u = None"
      "UpdatablePage.lastUpdatedById u = None" "UpdatablePage.content u = None"
      "UpdatablePage.textContent u = None" "UpdatablePage.ydoc u = None"
    and same: "strictEq (page.parentPageId movedPage) (MovePageDto.parentPageId dto)
               \<Longrightarrow> UpdatablePage.parentPageId u = None"
    and other: "\<not> strictEq (page.parentPageId movedPage) (MovePageDto.parentPageId dto)
               \<Longrightarrow> UpdatablePage.parentPageId u = toSet (MovePageDto.parentPageId dto)"
    using assms
    by (auto simp: movePage_def noChange_def split: option.splits if_splits)
  have p: "map page.position db'
           = map (\<lambda>p. if page.id' p = MovePageDto.pageId dto
                        then Some (MovePageDto.position dto) else page.position p) db"
    by (simp add: db' updatePage_def setColumns_def pos)
  have b: "map besidesPlacement db' = map besidesPlacement db"
    by (simp add: db' updatePage_def setColumns_def besidesPlacement_def rest)
  have f: "filter (\<lambda>p. page.id' p \<noteq> MovePageDto.pageId dto) db'
           = filter (\<lambda>p. page.id' p \<noteq> MovePageDto.pageId dto) db"
    by (simp add: db' updatePage_other_rows)
  have s: "db' = map (\<lambda>p. if page.id' p = MovePageDto.pageId dto
                             then p\<lparr>page.position := Some (MovePageDto.position dto)\<rparr>
                             else p) db"
    if "strictEq (page.parentPageId movedPage) (MovePageDto.parentPageId dto)"
    using same [OF that] by (simp add: db' updatePage_def setColumns_def pos rest)
  have o: "db' = map (\<lambda>p. if page.id' p = MovePageDto.pageId dto
                             then p\<lparr>page.position := Some (MovePageDto.position dto),
                                    page.parentPageId := toColumn (MovePageDto.parentPageId dto)\<rparr>
                             else p) db"
    if "\<not> strictEq (page.parentPageId movedPage) (MovePageDto.parentPageId dto)"
      and "MovePageDto.parentPageId dto \<noteq> Undefined"
    using other [OF that(1)] toSet_defined [OF that(2)]
    by (simp add: db' updatePage_def setColumns_def pos rest)
  from p b f s o show ?thesis by blast
qed

text \<open>
  The child \<open>c1\<close> of \<open>p1\<close> moved within \<open>p1\<close>, and moved to the root.
\<close>

theorem movePage_written_columns_witness:
  "movePage sampleKeyGen sampleDb
      \<lparr>MovePageDto.pageId = ''c1'', MovePageDto.position = ''a5'',
       MovePageDto.parentPageId = Str ''p1''\<rparr>
     = (Inr (), [mkPage ''p1'' ''a0'' None ''s1'', mkPage ''p2'' ''a1'' None ''s1'',
                 mkPage ''c1'' ''a5'' (Some ''p1'') ''s1'', mkPage ''c2'' ''a1'' (Some ''p1'') ''s1''])
   \<and> [mkPage ''p1'' ''a0'' None ''s1'', mkPage ''p2'' ''a1'' None ''s1'',
       mkPage ''c1'' ''a5'' (Some ''p1'') ''s1'', mkPage ''c2'' ''a1'' (Some ''p1'') ''s1'']
     = map (\<lambda>p. if page.id' p = ''c1'' then p\<lparr>page.position := Some ''a5''\<rparr> else p) sampleDb
   \<and> movePage sampleKeyGen sampleDb
      \<lparr>MovePageDto.pageId = ''c1'', MovePageDto.position = ''a5'',
       MovePageDto.parentPageId = Null\<rparr>
     = (Inr (), [mkPage ''p1'' ''a0'' None ''s1'', mkPage ''p2'' ''a1'' None ''s1'',
                 mkPage ''c1'' ''a5'' None ''s1'', mkPage ''c2'' ''a1'' (Some ''p1'') ''s1''])
   \<and> [mkPage ''p1'' ''a0'' None ''s1'', mkPage ''p2'' ''a1'' None ''s1'',
       mkPage ''c1'' ''a5'' None ''s1'', mkPage ''c2'' ''a1'' (Some ''p1'') ''s1'']
     = map (\<lambda>p. if page.id' p = ''c1''
                  then p\<lparr>page.position := Some ''a5'', page.parentPageId := None\<rparr> else p)
         sampleDb"
proof -
  let ?same = "\<lparr>MovePageDto.pageId = ''c1'', MovePageDto.position = ''a5'',
       MovePageDto.parentPageId = Str ''p1''\<rparr>"
  let ?root = "\<lparr>MovePageDto.pageId = ''c1'', MovePageDto.position = ''a5'',
       MovePageDto.parentPageId = Null\<rparr>"
  let ?c1 = "mkPage ''c1'' ''a0'' (Some ''p1'') ''s1''"
  have same: "movePage sampleKeyGen sampleDb ?same
     = (Inr (), [mkPage ''p1'' ''a0'' None ''s1'', mkPage ''p2'' ''a1'' None ''s1'',
                 mkPage ''c1'' ''a5'' (Some ''p1'') ''s1'', mkPage ''c2'' ''a1'' (Some ''p1'') ''s1''])"
    by (simp add: movePage_def sampleKeyGen_def mkPage_def updatePage_def sampleDb_def
          setColumns_def noChange_def findById_def)
  have root: "movePage sampleKeyGen sampleDb ?root
     = (Inr (), [mkPage ''p1'' ''a0'' None ''s1'', mkPage ''p2'' ''a1'' None ''s1'',
                 mkPage ''c1'' ''a5'' None ''s1'', mkPage ''c2'' ''a1'' (Some ''p1'') ''s1''])"
    by (simp add: movePage_def sampleKeyGen_def mkPage_def updatePage_def sampleDb_def
          setColumns_def noChange_def findById_def)
  have f: "findById sampleDb (MovePageDto.pageId ?same) = Some ?c1"
    "findById sampleDb (MovePageDto.pageId ?root) = Some ?c1"
    by simp_all
  have s: "strictEq (page.parentPageId ?c1) (MovePageDto.parentPageId ?same)"
    and r: "\<not> strictEq (page.parentPageId ?c1) (MovePageDto.parentPageId ?root)
            \<and> MovePageDto.parentPageId ?root \<noteq> Undefined"
    by (simp_all add: mkPage_def)
  from movePage_written_columns [OF same f(1)] s
       movePage_written_columns [OF root f(2)] r
       same root
  show ?thesis by simp
qed

text \<open>
  The child \<open>c1\<close> of \<open>p1\<close> moved to the root with the position \<open>a1\<close>, which the root
  page \<open>p2\<close> already has: the move succeeds and stores the supplied string, so that the
  destination group then holds \<open>a1\<close> twice. A position computed from the destination
  group, between or after its members, is different from each of theirs.
\<close>

theorem movePage_position_counterexample:
  "map page.position (siblingGroup sampleDb ''s1'' None) = [Some ''a0'', Some ''a1'']
   \<and> movePage sampleKeyGen sampleDb
        \<lparr>MovePageDto.pageId = ''c1'', MovePageDto.position = ''a1'',
         MovePageDto.parentPageId = Null\<rparr>
      = (Inr (), [mkPage ''p1'' ''a0'' None ''s1'', mkPage ''p2'' ''a1'' None ''s1'',
                  mkPage ''c1'' ''a1'' None ''s1'',
                  mkPage ''c2'' ''a1'' (Some ''p1'') ''s1''])
   \<and> map (\<lambda>p. (page.id' p, page.position p))
       (siblingGroup (snd (movePage sampleKeyGen sampleDb
          \<lparr>MovePageDto.pageId = ''c1'', MovePageDto.position = ''a1'',
           MovePageDto.parentPageId = Null\<rparr>)) ''s1'' None)
      = [(''p1'', Some ''a0''), (''p2'', Some ''a1''), (''c1'', Some ''a1'')]"
  by (simp add: movePage_def sampleKeyGen_def mkPage_def updatePage_def sampleDb_def
        setColumns_def noChange_def findById_def siblingGroup_def)

text \<open>
  C5. update and updateState leave the id, position, parentPageId, spaceId, creatorId and
  workspaceId of every row as they were, and leave every row with another id untouched:
  only title, icon, content, textContent, ydoc and lastUpdatedById of the addressed row
  can differ afterwards.
\<close>

theorem update_keeps_position_and_parent:
  "map unwrittenColumns (snd (update db pid dto userId)) = map unwrittenColumns db
   \<and> filter (\<lambda>p. page.id' p \<noteq> pid) (snd (update db pid dto userId))
       = filter (\<lambda>p. page.id' p \<noteq> pid) db
   \<and> map unwrittenColumns (updateState db pid contentArg textContentArg ydocArg userId')
       = map unwrittenColumns db
   \<and> filter (\<lambda>p. page.id' p \<noteq> pid)
         (updateState db pid contentArg textContentArg ydocArg userId')
       = filter (\<lambda>p. page.id' p \<noteq> pid) db"
  by (simp add: update_def updateState_def Let_def updatePage_unwritten updatePage_other_rows
        noChange_def)

text \<open>
  C8. A move request whose position the generator accepts and whose lookups succeed is
  carried out whatever positions the other rows have: the moved row gets the supplied
  string as it is and every other row keeps its position, so a position equal to a
  sibling's stays a duplicate in the table.
\<close>

theorem movePage_keeps_duplicates:
  assumes "gen (Some (MovePageDto.position dto)) None = Some k"
    and "findById db (MovePageDto.pageId dto) = Some movedPage"
    and "strictEq (page.parentPageId movedPage) (MovePageDto.parentPageId dto)
         \<or> \<not> truthy (MovePageDto.parentPageId dto)
         \<or> findById db (strOf (MovePageDto.parentPageId dto)) \<noteq> None"
  shows "fst (movePage gen db dto) = Inr ()
       \<and> map (\<lambda>p. (page.id' p, page.position p)) (snd (movePage gen db dto))
         = map (\<lambda>p. (page.id' p,
                      if page.id' p = MovePageDto.pageId dto
                      then Some (MovePageDto.position dto) else page.position p)) db"
  using assms
  by (auto simp: movePage_def updatePage_def setColumns_def noChange_def)

text \<open>
  The child \<open>c1\<close> of \<open>p1\<close> moved within \<open>p1\<close> to the position \<open>a1\<close> that its
  sibling \<open>c2\<close> already has.
\<close>

theorem movePage_keeps_duplicates_witness:
  "sampleKeyGen (Some ''a1'') None = Some ''a1V''
   \<and> findById sampleDb ''c1'' = Some (mkPage ''c1'' ''a0'' (Some ''p1'') ''s1'')
   \<and> findById sampleDb ''c2'' = Some (mkPage ''c2'' ''a1'' (Some ''p1'') ''s1'')
   \<and> strictEq (Some ''p1'') (Str ''p1'')
   \<and> fst (movePage sampleKeyGen sampleDb
        \<lparr>MovePageDto.pageId = ''c1'', MovePageDto.position = ''a1'',
         MovePageDto.parentPageId = Str ''p1''\<rparr>) = Inr ()
   \<and> map (\<lambda>p. (page.id' p, page.position p)) (snd (movePage sampleKeyGen sampleDb
        \<lparr>MovePageDto.pageId = ''c1'', MovePageDto.position = ''a1'',
         MovePageDto.parentPageId = Str ''p1''\<rparr>))
     = [(''p1'', Some ''a0''), (''p2'', Some ''a1''), (''c1'', Some ''a1''),
        (''c2'', Some ''a1'')]"
proof -
  let ?dto = "\<lparr>MovePageDto.pageId = ''c1'', MovePageDto.position = ''a1'',
         MovePageDto.parentPageId = Str ''p1''\<rparr>"
  let ?c1 = "mkPage ''c1'' ''a0'' (Some ''p1'') ''s1''"
  have g: "sampleKeyGen (Some (MovePageDto.position ?dto)) None = Some ''a1V''"
    by (simp add: sampleKeyGen_def)
  have f: "findById sampleDb (MovePageDto.pageId ?dto) = Some ?c1"
    by simp
  have p: "strictEq (page.parentPageId ?c1) (MovePageDto.parentPageId ?dto)
         \<or> \<not> truthy (MovePageDto.parentPageId ?dto)
         \<or> findById sampleDb (strOf (MovePageDto.parentPageId ?dto)) \<noteq> None"
    by (simp add: mkPage_def)
  have e: "map (\<lambda>p. (page.id' p,
                      if page.id' p = MovePageDto.pageId ?dto
                      then Some (MovePageDto.position ?dto) else page.position p)) sampleDb
     = [(''p1'', Some ''a0''), (''p2'', Some ''a1''), (''c1'', Some ''a1''),
        (''c2'', Some ''a1'')]"
    by (simp add: sampleDb_def mkPage_def)
  from movePage_keeps_duplicates [of sampleKeyGen ?dto "''a1V''" sampleDb ?c1, OF g f p] e g
  show ?thesis by simp
qed

subsection \<open>The sidebar listing\<close>

text \<open>
  C6, as the code has it. getSidebarPages returns what the pagination makes of a
  sequence of rows, the requested page number and the page size 250. That sequence holds
  exactly the members of the requested sibling group of the space (the root group when
  pageId is absent), each once, in ascending order of their positions as the store
  compares them. When the store compares positions by character codes and no member has
  a NULL position, this is the ascending lexicographic order of the position strings.
\<close>

theorem getSidebarPages_sorted_group:
  "getSidebarPages exec collate db dto pagination
     = exec (sidebarQuery collate db dto)
         \<lparr>PaginationArgs.page = PaginationOptions.page pagination, perPage = 250\<rparr>
   \<and> sorted (map (\<lambda>r. collate (SidebarRow.position r)) (sidebarQuery collate db dto))
   \<and> mset (sidebarQuery collate db dto) =
       image_mset (selectSidebar db)
         (mset (siblingGroup db (SidebarPageDto.spaceId dto)
                  (namedParent (SidebarPageDto.pageId dto))))
   \<and> ((\<forall>a b. (collate (Some a) \<le> collate (Some b)) = (a \<le> b))
        \<and> (\<forall>r \<in> set (sidebarQuery collate db dto). SidebarRow.position r \<noteq> None)
       \<longrightarrow> sorted (map (\<lambda>r. the (SidebarRow.position r)) (sidebarQuery collate db dto)))"
proof -
  let ?rows = "sidebarQuery collate db dto"
  have s: "sorted (map (\<lambda>r. collate (SidebarRow.position r)) ?rows)"
    by (simp only: sidebarQuery_keys sorted_sort_key)
  have l: "sorted (map (\<lambda>r. the (SidebarRow.position r)) ?rows)"
    if embed: "\<forall>a b. (collate (Some a) \<le> collate (Some b)) = (a \<le> b)"
      and nn: "\<forall>r \<in> set ?rows. SidebarRow.position r \<noteq> None"
  proof -
    have "map (\<lambda>r. collate (SidebarRow.position r)) ?rows
          = map (\<lambda>s. collate (Some s)) (map (\<lambda>r. the (SidebarRow.position r)) ?rows)"
      using nn by (auto simp: comp_def)
    with s have "sorted (map (\<lambda>s. collate (Some s))
                   (map (\<lambda>r. the (SidebarRow.position r)) ?rows))"
      by simp
    with embed show ?thesis
      by (simp only: sorted_map_embed [of "\<lambda>s. collate (Some s)"])
  qed
  have g: "getSidebarPages exec collate db dto pagination
     = exec ?rows \<lparr>PaginationArgs.page = PaginationOptions.page pagination, perPage = 250\<rparr>"
    by (simp add: getSidebarPages_def)
  from g s l sidebarQuery_mset [of collate db dto] show ?thesis by blast
qed

text \<open>
  The children of \<open>p1\<close> in the sample table, with positions compared by character codes.
\<close>

theorem getSidebarPages_sorted_group_witness:
  "map SidebarRow.position (sidebarQuery codePoints sampleDb
      \<lparr>SidebarPageDto.spaceId = ''s1'', SidebarPageDto.pageId = Str ''p1''\<rparr>)
     = [Some ''a0'', Some ''a1'']
   \<and> sorted (map (\<lambda>r. the (SidebarRow.position r)) (sidebarQuery codePoints sampleDb
      \<lparr>SidebarPageDto.spaceId = ''s1'', SidebarPageDto.pageId = Str ''p1''\<rparr>))
   \<and> getSidebarPages (\<lambda>rows opts. (map SidebarRow.id' rows, opts)) codePoints sampleDb
        \<lparr>SidebarPageDto.spaceId = ''s1'', SidebarPageDto.pageId = Str ''p1''\<rparr>
        \<lparr>PaginationOptions.page = 1, limit = 20\<rparr>
     = ([''c1'', ''c2''], \<lparr>PaginationArgs.page = 1, perPage = 250\<rparr>)"
proof -
  let ?dto = "\<lparr>SidebarPageDto.spaceId = ''s1'', SidebarPageDto.pageId = Str ''p1''\<rparr>"
  let ?pg = "\<lparr>PaginationOptions.page = 1, limit = 20\<rparr>"
  let ?exec = "\<lambda>rows opts. (map SidebarRow.id' rows, opts)"
  have p: "map SidebarRow.position (sidebarQuery codePoints sampleDb ?dto)
     = [Some ''a0'', Some ''a1'']"
    and i: "map SidebarRow.id' (sidebarQuery codePoints sampleDb ?dto) = [''c1'', ''c2'']"
    by (simp_all add: sidebarQuery_def selectSidebar_def sampleDb_def mkPage_def
          codePoints_def)
  have e: "\<forall>a b. (codePoints (Some a) \<le> codePoints (Some b)) = (a \<le> b)"
    by (simp add: codePoints_def)
  have "\<forall>x \<in> set (map SidebarRow.position (sidebarQuery codePoints sampleDb ?dto)). x \<noteq> None"
    unfolding p by simp
  then have n: "\<forall>r \<in> set (sidebarQuery codePoints sampleDb ?dto). SidebarRow.position r \<noteq> None"
    by simp
  note t = getSidebarPages_sorted_group [of ?exec codePoints sampleDb ?dto ?pg]
  from t e n have "sorted (map (\<lambda>r. the (SidebarRow.position r))
                     (sidebarQuery codePoints sampleDb ?dto))"
    by blast
  moreover from t have "getSidebarPages ?exec codePoints sampleDb ?dto ?pg
     = ?exec (sidebarQuery codePoints sampleDb ?dto)
         \<lparr>PaginationArgs.page = PaginationOptions.page ?pg, perPage = 250\<rparr>"
    by blast
  ultimately show ?thesis using p i by simp
qed

text \<open>
  The children of \<open>p1\<close> have the positions \<open>a0V\<close> and \<open>a0b\<close>. From a store that
  compares positions without regard to case the rows come with \<open>a0b\<close> first, which is
  not the lexicographic order of the two strings.
\<close>

theorem getSidebarPages_order_counterexample:
  "map SidebarRow.position
     (getSidebarPages (\<lambda>rows opts. rows) ignoreCase mixedCaseDb
        \<lparr>SidebarPageDto.spaceId = ''s1'', SidebarPageDto.pageId = Str ''p1''\<rparr>
        \<lparr>PaginationOptions.page = 1, limit = 20\<rparr>)
     = [Some ''a0b'', Some ''a0V'']
   \<and> (''a0V'' :: string) < ''a0b''
   \<and> \<not> sorted [''a0b'', ''a0V'' :: string]"
  by (simp add: getSidebarPages_def sidebarQuery_def selectSidebar_def mixedCaseDb_def
        mkPage_def ignoreCase_def lowerChar_def)

text \<open>
  C9. Whatever executes the paginated query, it is handed the query of the sidebar, the
  page number of the caller's options and 250 as the page size; two calls that differ
  only in the caller's page size give the same result.
\<close>

theorem getSidebarPages_page_size:
  "getSidebarPages exec collate db dto pagination
     = exec (sidebarQuery collate db dto)
         \<lparr>PaginationArgs.page = PaginationOptions.page pagination, perPage = 250\<rparr>
   \<and> (PaginationOptions.page pagination' = PaginationOptions.page pagination
        \<longrightarrow> getSidebarPages exec collate db dto pagination'
            = getSidebarPages exec collate db dto pagination)"
  by (simp add: getSidebarPages_def)

text \<open>
  Two requests for page 1 of the children of \<open>p1\<close>, one asking for 20 rows a page and one
  for 1000, with an executor that answers with the ids of the rows and the options it was
  given.
\<close>

theorem getSidebarPages_page_size_witness:
  "PaginationOptions.page \<lparr>PaginationOptions.page = 1, limit = 1000\<rparr>
     = PaginationOptions.page \<lparr>PaginationOptions.page = 1, limit = 20\<rparr>
   \<and> getSidebarPages (\<lambda>rows opts. (map SidebarRow.id' rows, opts)) codePoints sampleDb
        \<lparr>SidebarPageDto.spaceId = ''s1'', SidebarPageDto.pageId = Str ''p1''\<rparr>
        \<lparr>PaginationOptions.page = 1, limit = 1000\<rparr>
     = ([''c1'', ''c2''], \<lparr>PaginationArgs.page = 1, perPage = 250\<rparr>)
   \<and> getSidebarPages (\<lambda>rows opts. (map SidebarRow.id' rows, opts)) codePoints sampleDb
        \<lparr>SidebarPageDto.spaceId = ''s1'', SidebarPageDto.pageId = Str ''p1''\<rparr>
        \<lparr>PaginationOptions.page = 1, limit = 20\<rparr>
     = ([''c1'', ''c2''], \<lparr>PaginationArgs.page = 1, perPage = 250\<rparr>)"
proof -
  let ?dto = "\<lparr>SidebarPageDto.spaceId = ''s1'', SidebarPageDto.pageId = Str ''p1''\<rparr>"
  let ?small = "\<lparr>PaginationOptions.page = 1, limit = 20\<rparr>"
  let ?large = "\<lparr>PaginationOptions.page = 1, limit = 1000\<rparr>"
  let ?exec = "\<lambda>rows opts. (map SidebarRow.id' rows, opts)"
  have i: "map SidebarRow.id' (sidebarQuery codePoints sampleDb ?dto) = [''c1'', ''c2'']"
    by (simp add: sidebarQuery_def selectSidebar_def sampleDb_def mkPage_def codePoints_def)
  note t = getSidebarPages_page_size [of ?exec codePoints sampleDb ?dto ?small ?large]
  have same: "PaginationOptions.page ?large = PaginationOptions.page ?small" by simp
  from t have small: "getSidebarPages ?exec codePoints sampleDb ?dto ?small
     = ?exec (sidebarQuery codePoints sampleDb ?dto)
         \<lparr>PaginationArgs.page = PaginationOptions.page ?small, perPage = 250\<rparr>"
    by blast
  from t same have "getSidebarPages ?exec codePoints sampleDb ?dto ?large
     = getSidebarPages ?exec codePoints sampleDb ?dto ?small"
    by blast
  with small i show ?thesis by simp
qed

subsection \<open>Saving an edited comment\<close>

text \<open>
  C10. When handleUpdateComment has finished, isLoading is false and the content is the
  edited content. If the mutation resolved, isEditing is false and nothing was logged. If
  the mutation rejected, isEditing is what it was before (true while the editor is open)
  and the only trace is one message on the console.
\<close>

theorem handleUpdateComment_outcome:
  "isLoading (handleUpdateComment stringify mutateAsync commentId st) = False
   \<and> CommentItemState.content (handleUpdateComment stringify mutateAsync commentId st)
       = CommentItemState.content st
   \<and> (mutateAsync (commentId, stringify (CommentItemState.content st)) = None
        \<longrightarrow> isEditing (handleUpdateComment stringify mutateAsync commentId st) = False
          \<and> console (handleUpdateComment stringify mutateAsync commentId st) = console st)
   \<and> (mutateAsync (commentId, stringify (CommentItemState.content st)) = Some err
        \<longrightarrow> isEditing (handleUpdateComment stringify mutateAsync commentId st) = isEditing st
          \<and> console (handleUpdateComment stringify mutateAsync commentId st)
              = console st @ [''Failed to update comment: '' @ err])"
  by (simp add: handleUpdateComment_def Let_def split: option.splits)

text \<open>An open editor, once with a mutation that rejects and once with one that resolves.\<close>

theorem handleUpdateComment_outcome_witness:
  "(\<lambda>c. Some ''offline'') (''k1'', id ''new text'') = Some ''offline''
   \<and> isEditing (handleUpdateComment id (\<lambda>c. Some ''offline'') ''k1''
        \<lparr>isEditing = True, isLoading = False, CommentItemState.content = ''new text'',
         console = []\<rparr>) = True
   \<and> isLoading (handleUpdateComment id (\<lambda>c. Some ''offline'') ''k1''
        \<lparr>isEditing = True, isLoading = False, CommentItemState.content = ''new text'',
         console = []\<rparr>) = False
   \<and> console (handleUpdateComment id (\<lambda>c. Some ''offline'') ''k1''
        \<lparr>isEditing = True, isLoading = False, CommentItemState.content = ''new text'',
         console = []\<rparr>) = [''Failed to update comment: offline'']
   \<and> (\<lambda>c. None :: string option) (''k1'', id ''new text'') = None
   \<and> isEditing (handleUpdateComment id (\<lambda>c. None) ''k1''
        \<lparr>isEditing = True, isLoading = False, CommentItemState.content = ''new text'',
         console = []\<rparr>) = False
   \<and> isLoading (handleUpdateComment id (\<lambda>c. None) ''k1''
        \<lparr>isEditing = True, isLoading = False, CommentItemState.content = ''new text'',
         console = []\<rparr>) = False"
  using handleUpdateComment_outcome
      [of id "\<lambda>c. Some ''offline''" "''k1''"
          "\<lparr>isEditing = True, isLoading = False, CommentItemState.content = ''new text'',
            console = []\<rparr>" "''offline''"]
    handleUpdateComment_outcome
      [of id "\<lambda>c. None" "''k1''"
          "\<lparr>isEditing = True, isLoading = False, CommentItemState.content = ''new text'',
            console = []\<rparr>" "''offline''"]
  by simp


end
